theory Spec2Isabelle
  imports Complex_Main "HOL-Library.Word" "HOL-Library.Multiset"
begin

section \<open>JavaScript values\<close>

text \<open>
  A JavaScript number is modelled as an exact real, or one of the three special values
  of the Number type. Rounding to 64-bit precision and overflow are abstracted (finite
  arithmetic is exact), and the sign of zero is not distinguished. The special values
  follow IEEE 754 as JavaScript exposes it: \<open>NaN\<close> is absorbing, \<open>Infinity - Infinity\<close>
  and \<open>0 * Infinity\<close> are \<open>NaN\<close>, every comparison with \<open>NaN\<close> is false.
\<close>

datatype jsnum = Fin real | PInf | NInf | NaN

fun js_neg :: "jsnum \<Rightarrow> jsnum" where
  "js_neg (Fin a) = Fin (- a)"
| "js_neg PInf = NInf"
| "js_neg NInf = PInf"
| "js_neg NaN = NaN"

fun js_add :: "jsnum \<Rightarrow> jsnum \<Rightarrow> jsnum" where
  "js_add (Fin a) (Fin b) = Fin (a + b)"
| "js_add NaN _ = NaN"
| "js_add _ NaN = NaN"
| "js_add PInf NInf = NaN"
| "js_add NInf PInf = NaN"
| "js_add PInf _ = PInf"
| "js_add _ PInf = PInf"
| "js_add NInf _ = NInf"
| "js_add _ NInf = NInf"

definition js_sub :: "jsnum \<Rightarrow> jsnum \<Rightarrow> jsnum" where
  "js_sub a b = js_add a (js_neg b)"

text \<open>The sign of a non-NaN number: \<open>True\<close> for a negative one.\<close>

fun js_negative :: "jsnum \<Rightarrow> bool" where
  "js_negative (Fin a) = (a < 0)"
| "js_negative NInf = True"
| "js_negative _ = False"

fun js_is_zero :: "jsnum \<Rightarrow> bool" where
  "js_is_zero (Fin a) = (a = 0)"
| "js_is_zero _ = False"

definition js_signed_inf :: "bool \<Rightarrow> jsnum" where
  "js_signed_inf neg = (if neg then NInf else PInf)"

fun js_mul :: "jsnum \<Rightarrow> jsnum \<Rightarrow> jsnum" where
  "js_mul (Fin a) (Fin b) = Fin (a * b)"
| "js_mul NaN _ = NaN"
| "js_mul _ NaN = NaN"
| "js_mul a b =
     (if js_is_zero a \<or> js_is_zero b then NaN
      else js_signed_inf (js_negative a \<noteq> js_negative b))"

fun js_div :: "jsnum \<Rightarrow> jsnum \<Rightarrow> jsnum" where
  "js_div NaN _ = NaN"
| "js_div _ NaN = NaN"
| "js_div (Fin a) (Fin b) =
     (if b \<noteq> 0 then Fin (a / b)
      else if a = 0 then NaN
      else js_signed_inf (a < 0))"
| "js_div (Fin a) _ = Fin 0"
| "js_div a (Fin b) = js_signed_inf (js_negative a \<noteq> (b < 0))"
| "js_div _ _ = NaN"

fun Math_abs :: "jsnum \<Rightarrow> jsnum" where
  "Math_abs (Fin a) = Fin \<bar>a\<bar>"
| "Math_abs PInf = PInf"
| "Math_abs NInf = PInf"
| "Math_abs NaN = NaN"

fun Math_sqrt :: "jsnum \<Rightarrow> jsnum" where
  "Math_sqrt (Fin a) = (if a < 0 then NaN else Fin (sqrt a))"
| "Math_sqrt PInf = PInf"
| "Math_sqrt NInf = NaN"
| "Math_sqrt NaN = NaN"

text \<open>\<open>Math.pow(b, 2)\<close>: the square; \<open>NaN\<close> stays, an infinity becomes \<open>Infinity\<close>.\<close>

fun Math_pow2 :: "jsnum \<Rightarrow> jsnum" where
  "Math_pow2 (Fin a) = Fin (a * a)"
| "Math_pow2 NaN = NaN"
| "Math_pow2 _ = PInf"

fun js_lt :: "jsnum \<Rightarrow> jsnum \<Rightarrow> bool" where
  "js_lt (Fin a) (Fin b) = (a < b)"
| "js_lt NaN _ = False"
| "js_lt _ NaN = False"
| "js_lt _ NInf = False"
| "js_lt PInf _ = False"
| "js_lt _ _ = True"

definition js_gt :: "jsnum \<Rightarrow> jsnum \<Rightarrow> bool" where
  "js_gt a b = js_lt b a"



text \<open>Strict equality \<open>a === b\<close> on numbers: \<open>NaN\<close> equals nothing.\<close>

definition js_seq :: "jsnum \<Rightarrow> jsnum \<Rightarrow> bool" where
  "js_seq a b = (a \<noteq> NaN \<and> a = b)"

fun isNaN :: "jsnum \<Rightarrow> bool" where
  "isNaN NaN = True"
| "isNaN _ = False"

text \<open>Truthiness of a number: \<open>0\<close> and \<open>NaN\<close> are falsy. \<open>n || d\<close> on numbers.\<close>

fun num_truthy :: "jsnum \<Rightarrow> bool" where
  "num_truthy (Fin a) = (a \<noteq> 0)"
| "num_truthy NaN = False"
| "num_truthy _ = True"

definition num_or :: "jsnum \<Rightarrow> jsnum \<Rightarrow> jsnum" where
  "num_or n d = (if num_truthy n then n else d)"


section \<open>Statistics records and the interpretation engine\<close>

text \<open>
  The record returned by \<open>computeFullStats\<close>. The fields \<open>min\<close>, \<open>max\<close>, \<open>range\<close>,
  \<open>sum\<close> and \<open>count\<close> of the source carry the suffix \<open>_v\<close> here, as does the
  field \<open>context\<close> of an advisory entry.
\<close>

record stats =
  mean :: jsnum
  median :: jsnum
  variance :: jsnum
  stdDev :: jsnum
  min_v :: jsnum
  max_v :: jsnum
  range_v :: jsnum
  peak :: jsnum
  lowPoint :: jsnum
  sum_v :: jsnum
  count_v :: nat

record shifts =
  volShift :: jsnum
  peakShift :: jsnum

text \<open>
  A template literal is kept as the list of its pieces: literal text, a number formatted
  by \<open>toFixed(d)\<close>, a number converted by \<open>String\<close>, a number formatted by
  \<open>toLocaleString()\<close>. The digits a number prints as are not computed.
\<close>

datatype piece = Lit string | Fixed jsnum nat | NumStr jsnum | LocaleStr jsnum

type_synonym template = "piece list"

record biInterpretation =
  operationalState :: string
  concentrationRisk :: string
  stabilityAssessment :: string
  efficiencyObservation :: string
  varianceStatus :: string

record impact =
  label :: string
  category :: string
  detail :: template
  threshold :: string

record advice =
  action :: string
  metric :: string
  context_v :: template

record brain =
  brain_biInterpretation :: biInterpretation
  brain_impactMatrix :: "impact list"
  brain_advisory :: "advice list"

text \<open>\<open>const concentration = (stats.max / (stats.sum || 1)) * 100\<close>\<close>

definition concentration_of :: "stats \<Rightarrow> jsnum" where
  "concentration_of st = js_mul (js_div (max_v st) (num_or (sum_v st) (Fin 1))) (Fin 100)"

text \<open>\<open>stats.stdDev / (stats.mean || 1)\<close>, used by three of the rules.\<close>

definition dispersion_of :: "stats \<Rightarrow> jsnum" where
  "dispersion_of st = js_div (stdDev st) (num_or (mean st) (Fin 1))"

definition interpretation_of :: "stats \<Rightarrow> shifts \<Rightarrow> biInterpretation" where
  "interpretation_of st sh =
     \<lparr> operationalState =
         (if js_gt (concentration_of st) (Fin 50) then ''Highly Concentrated (Siloed)''
          else ''Balanced (Distributed)''),
       concentrationRisk =
         (if js_gt (concentration_of st) (Fin 40) then ''Critical Alpha Dependency''
          else ''Stable Diversification''),
       stabilityAssessment =
         (if js_lt (Math_abs (volShift sh)) (Fin 10) then ''Steady-State Operational''
          else ''Volatile Flow Change''),
       efficiencyObservation =
         (if js_gt (mean st) (Fin 0) \<and> js_lt (js_div (stdDev st) (mean st)) (Fin (1/2))
          then ''High Precision Flow'' else ''Dispersed Intensity''),
       varianceStatus =
         (if js_gt (dispersion_of st) (Fin (1/2)) then ''High Variance (Skewed)''
          else ''Stable Distribution (Balanced)'') \<rparr>"

definition impactMatrix_of :: "stats \<Rightarrow> jsnum \<Rightarrow> string \<Rightarrow> string \<Rightarrow> string \<Rightarrow> impact list" where
  "impactMatrix_of st correlation xLabel yLabel dominantContributor =
     [ \<lparr> label = ''Alpha Node Leverage'',
         category = (if js_gt (max_v st) (js_mul (mean st) (Fin 5)) then ''High Impact''
                     else ''Medium Impact''),
         detail = [Lit ''Dominant contributor ['', Lit dominantContributor, Lit ''] controls '',
                   Fixed (concentration_of st) 1, Lit ''% of total volume.''],
         threshold = ''Concentration > 40% triggers dependency risk.'' \<rparr>,
       \<lparr> label = ''Distribution Stability'',
         category = (if js_gt (Math_abs (dispersion_of st)) (Fin (8/10)) then ''Critical Risk''
                     else ''Stable''),
         detail = [Lit ''Variance measured at '', Fixed (variance st) 1,
                   Lit '' with a StdDev of '', Fixed (stdDev st) 1, Lit ''.''],
         threshold = ''Variance within operational stability threshold.'' \<rparr>,
       \<lparr> label = ''Temporal/Relational Lock'',
         category = (if js_gt (Math_abs correlation) (Fin (7/10)) then ''Operationally Critical''
                     else ''Weak Correlation''),
         detail = [Lit yLabel, Lit '' shows a '', Fixed (Math_abs correlation) 2,
                   Lit '' correlation strength with '', Lit xLabel, Lit ''.''],
         threshold = ''Correlation > 0.7 indicates direct operational dependency.'' \<rparr> ]"

definition diversify :: "stats \<Rightarrow> string \<Rightarrow> advice" where
  "diversify st dominantContributor =
     \<lparr> action = ''DIVERSIFY'', metric = ''Concentration'',
       context_v = [Lit ''Reduce dependency on dominant nodes (['', Lit dominantContributor,
                  Lit '']). High concentration ('', Fixed (concentration_of st) 1,
                  Lit ''%) creates single-point failure risks. Actions should focus on redistributing volume to secondary nodes.''] \<rparr>"

definition monitor :: "shifts \<Rightarrow> advice" where
  "monitor sh =
     \<lparr> action = ''MONITOR'', metric = ''Volatility'',
       context_v = [Lit ''Significant volume shift detected ('', NumStr (volShift sh),
                  Lit ''%). Validate input integrity and peak stability. Distribution change exceeds the 15% threshold for standard operations.''] \<rparr>"

definition reduce :: advice where
  "reduce =
     \<lparr> action = ''REDUCE'', metric = ''Dispersion'',
       context_v = [Lit ''High data variance detected. Streamline operational nodes to improve flow consistency. Targeted stabilization of high-variance segments is recommended.''] \<rparr>"

definition maintain :: advice where
  "maintain =
     \<lparr> action = ''MAINTAIN'', metric = ''Baseline'',
       context_v = [Lit ''System operating within balanced parameters. Continue standard monitoring protocol as variance and concentration remain within optimal thresholds.''] \<rparr>"

text \<open>
  The advisory array: three \<open>if\<close> statements push in turn, and a fourth pushes the
  fallback when the array is still empty.
\<close>

definition advisory_of :: "stats \<Rightarrow> shifts \<Rightarrow> string \<Rightarrow> advice list" where
  "advisory_of st sh dominantContributor =
     (let a1 = (if js_gt (concentration_of st) (Fin 40)
                then [diversify st dominantContributor] else []);
          a2 = (if js_gt (Math_abs (volShift sh)) (Fin 15) then a1 @ [monitor sh] else a1);
          a3 = (if js_gt (dispersion_of st) (Fin (12/10)) then a2 @ [reduce] else a2)
      in if length a3 = 0 then a3 @ [maintain] else a3)"

definition biAnalystBrain ::
  "stats \<Rightarrow> shifts \<Rightarrow> jsnum \<Rightarrow> string \<Rightarrow> string \<Rightarrow> string \<Rightarrow> brain" where
  "biAnalystBrain st sh correlation xLabel yLabel dominantContributor =
     \<lparr> brain_biInterpretation = interpretation_of st sh,
       brain_impactMatrix = impactMatrix_of st correlation xLabel yLabel dominantContributor,
       brain_advisory = advisory_of st sh dominantContributor \<rparr>"


section \<open>Cells, rows and objects\<close>

text \<open>
  The values a cell of a row can hold. A string is a list of code units; the case
  mappings and the white-space test below are those of the code units 0 to 127.
\<close>

datatype jsval = JUndefined | JNull | JBool bool | JNum jsnum | JStr string

fun js_truthy :: "jsval \<Rightarrow> bool" where
  "js_truthy JUndefined = False"
| "js_truthy JNull = False"
| "js_truthy (JBool b) = b"
| "js_truthy (JNum n) = num_truthy n"
| "js_truthy (JStr s) = (s \<noteq> [])"

text \<open>
  \<open>String(v)\<close>. The digits of a number are those of the language's number-to-string
  conversion, which is taken as the parameter \<open>numToString\<close>.
\<close>

fun js_String :: "(jsnum \<Rightarrow> string) \<Rightarrow> jsval \<Rightarrow> string" where
  "js_String numToString JUndefined = ''undefined''"
| "js_String numToString JNull = ''null''"
| "js_String numToString (JBool b) = (if b then ''true'' else ''false'')"
| "js_String numToString (JNum n) = numToString n"
| "js_String numToString (JStr s) = s"

definition is_ws :: "char \<Rightarrow> bool" where
  "is_ws c = (c \<in> set [CHR 0x09, CHR 0x0A, CHR 0x0B, CHR 0x0C, CHR 0x0D, CHR '' ''])"

definition trim :: "string \<Rightarrow> string" where
  "trim s = rev (dropWhile is_ws (rev (dropWhile is_ws s)))"

definition is_upper :: "char \<Rightarrow> bool" where
  "is_upper c = (65 \<le> (of_char c :: nat) \<and> (of_char c :: nat) \<le> 90)"

definition is_lower :: "char \<Rightarrow> bool" where
  "is_lower c = (97 \<le> (of_char c :: nat) \<and> (of_char c :: nat) \<le> 122)"

definition lower_char :: "char \<Rightarrow> char" where
  "lower_char c =
     (case map_of (zip ''ABCDEFGHIJKLMNOPQRSTUVWXYZ'' ''abcdefghijklmnopqrstuvwxyz'') c of
        None \<Rightarrow> c | Some l \<Rightarrow> l)"

definition upper_char :: "char \<Rightarrow> char" where
  "upper_char c =
     (case map_of (zip ''abcdefghijklmnopqrstuvwxyz'' ''ABCDEFGHIJKLMNOPQRSTUVWXYZ'') c of
        None \<Rightarrow> c | Some u \<Rightarrow> u)"

definition toLowerCase :: "string \<Rightarrow> string" where
  "toLowerCase s = map lower_char s"

definition toUpperCase :: "string \<Rightarrow> string" where
  "toUpperCase s = map upper_char s"

definition is_digit :: "char \<Rightarrow> bool" where
  "is_digit c = (48 \<le> (of_char c :: nat) \<and> (of_char c :: nat) \<le> 57)"

definition digit_val :: "char \<Rightarrow> nat" where
  "digit_val c = (of_char c :: nat) - 48"

text \<open>The number a run of decimal digits denotes (\<open>0\<close> for the empty run).\<close>

definition digits_val :: "string \<Rightarrow> nat" where
  "digits_val ds = foldl (\<lambda>n c. 10 * n + digit_val c) 0 ds"

text \<open>
  An ordinary object used as a dictionary: its own properties in creation order, each key
  once. Reading a missing key gives \<open>undefined\<close> (\<open>None\<close>); the properties every object
  inherits from its prototype are not modelled, so keys such as \<open>constructor\<close> or
  \<open>__proto__\<close> are outside the model. Assigning to a key replaces the value in place or
  appends a new property. \<open>Object.keys\<close> and \<open>Object.entries\<close> list the keys that are array
  indices first, in ascending numeric order, then the others in creation order.
\<close>

type_synonym 'v obj = "(string \<times> 'v) list"

definition obj_get :: "'v obj \<Rightarrow> string \<Rightarrow> 'v option" where
  "obj_get ob k = map_of ob k"

fun obj_set :: "'v obj \<Rightarrow> string \<Rightarrow> 'v \<Rightarrow> 'v obj" where
  "obj_set [] k v = [(k, v)]"
| "obj_set (p # ps) k v = (if fst p = k then (k, v) # ps else p # obj_set ps k v)"

text \<open>
  An array index is the canonical decimal form of an integer from \<open>0\<close> to \<open>2^32 - 2\<close>.
\<close>

definition is_array_index :: "string \<Rightarrow> bool" where
  "is_array_index k =
     (k \<noteq> [] \<and> list_all is_digit k \<and> (if hd k = CHR ''0'' then length k = 1 else True)
      \<and> digits_val k \<le> 4294967294)"

definition Object_entries :: "'v obj \<Rightarrow> (string \<times> 'v) list" where
  "Object_entries ob =
     sort_key (\<lambda>p. digits_val (fst p)) (filter (\<lambda>p. is_array_index (fst p)) ob)
     @ filter (\<lambda>p. \<not> is_array_index (fst p)) ob"

definition Object_keys :: "'v obj \<Rightarrow> string list" where
  "Object_keys ob = map fst (Object_entries ob)"

type_synonym row = "jsval obj"

text \<open>\<open>d[field]\<close> on a row.\<close>

definition cell :: "row \<Rightarrow> string \<Rightarrow> jsval" where
  "cell d field = (case obj_get d field of None \<Rightarrow> JUndefined | Some v \<Rightarrow> v)"

text \<open>
  \<open>Array.prototype.sort(cmp)\<close>: a stable sort. An element moves behind another exactly
  when the comparator's result for the pair is greater than zero; a \<open>NaN\<close> result counts
  as zero. (For a comparator that is not a consistent ordering the language leaves the
  order to the implementation; this one is the insertion order.)
\<close>

fun insert_by :: "('a \<Rightarrow> 'a \<Rightarrow> jsnum) \<Rightarrow> 'a \<Rightarrow> 'a list \<Rightarrow> 'a list" where
  "insert_by cmp x [] = [x]"
| "insert_by cmp x (y # ys) =
     (if js_gt (cmp x y) (Fin 0) then y # insert_by cmp x ys else x # y # ys)"

definition array_sort :: "('a \<Rightarrow> 'a \<Rightarrow> jsnum) \<Rightarrow> 'a list \<Rightarrow> 'a list" where
  "array_sort cmp xs = foldr (insert_by cmp) xs []"

section \<open>The statistics engine\<close>

text \<open>
  \<open>parseFloat\<close> on the strings \<open>parseVal\<close> passes to it, which hold only digits, \<open>.\<close>
  and \<open>-\<close>: the longest prefix that is a decimal literal (an optional \<open>-\<close>, then digits
  with an optional fraction, or a fraction alone) gives the value, and \<open>NaN\<close> when there
  is no such prefix. (A literal beyond the range of the doubles, which the language
  reads as \<open>Infinity\<close>, keeps its value here.)
\<close>

definition parseFloat :: "string \<Rightarrow> jsnum" where
  "parseFloat s =
     (let neg = (s \<noteq> [] \<and> hd s = CHR ''-'');
          r = (if neg then tl s else s);
          ip = takeWhile is_digit r;
          r1 = dropWhile is_digit r;
          fp = (if r1 \<noteq> [] \<and> hd r1 = CHR ''.'' then takeWhile is_digit (tl r1) else [])
      in if ip = [] \<and> fp = [] then NaN
         else Fin ((if neg then - 1 else 1) *
                   (real (digits_val ip) + real (digits_val fp) / 10 ^ length fp)))"

text \<open>\<open>.replace(/[^0-9.-]/g, "")\<close>\<close>

definition strip_non_numeric :: "string \<Rightarrow> string" where
  "strip_non_numeric s = filter (\<lambda>c. is_digit c \<or> c = CHR ''.'' \<or> c = CHR ''-'') s"

text \<open>\<open>parseFloat(String(s).replace(/[^0-9.-]/g, "")) || 0\<close> for a string \<open>s\<close>.\<close>

definition coerce_text :: "string \<Rightarrow> jsnum" where
  "coerce_text s = num_or (parseFloat (strip_non_numeric s)) (Fin 0)"

text \<open>
  \<open>parseVal\<close>: a number passes through; any other value \<open>v\<close> goes through
  \<open>String(v || "")\<close>, which is the empty string for a falsy one.
\<close>

fun parseVal :: "jsval \<Rightarrow> jsnum" where
  "parseVal (JNum n) = n"
| "parseVal (JStr s) = coerce_text s"
| "parseVal (JBool b) = coerce_text (if b then ''true'' else [])"
| "parseVal JNull = coerce_text []"
| "parseVal JUndefined = coerce_text []"

text \<open>\<open>data.map(d => parseVal(d[field])).filter(n => !isNaN(n))\<close>\<close>

definition column_nums :: "row list \<Rightarrow> string \<Rightarrow> jsnum list" where
  "column_nums data field = filter (\<lambda>n. \<not> isNaN n) (map (\<lambda>d. parseVal (cell d field)) data)"

text \<open>\<open>nums.reduce((a, b) => a + b, 0)\<close>\<close>

definition sum_nums :: "jsnum list \<Rightarrow> jsnum" where
  "sum_nums nums = foldl js_add (Fin 0) nums"

definition median_of :: "jsnum list \<Rightarrow> jsnum" where
  "median_of sorted_n =
     (let count = length sorted_n
      in if count mod 2 \<noteq> 0 then sorted_n ! (count div 2)
         else js_div (js_add (sorted_n ! (count div 2 - 1)) (sorted_n ! (count div 2))) (Fin 2))"

definition variance_of :: "jsnum list \<Rightarrow> jsnum \<Rightarrow> jsnum" where
  "variance_of nums avg =
     js_div (foldl (\<lambda>a b. js_add a (Math_pow2 (js_sub b avg))) (Fin 0) nums)
            (Fin (real (length nums)))"

text \<open>
  \<open>computeFullStats\<close>: \<open>null\<close> is \<open>None\<close>. The indices read from the sorted copy are all
  below \<open>count\<close>, which is positive there.
\<close>

definition computeFullStats :: "row list \<Rightarrow> string \<Rightarrow> stats option" where
  "computeFullStats data field =
     (let nums = column_nums data field;
          count = length nums
      in if count = 0 then None
         else
           let sum_n = sum_nums nums;
               avg = js_div sum_n (Fin (real count));
               sorted_n = array_sort js_sub nums;
               mn = sorted_n ! 0;
               mx = sorted_n ! (count - 1);
               med = median_of sorted_n;
               var = variance_of nums avg;
               sd = Math_sqrt var
           in Some \<lparr> mean = avg, median = med, variance = var, stdDev = sd,
                     min_v = mn, max_v = mx, range_v = js_sub mx mn,
                     peak = mx, lowPoint = mn, sum_v = sum_n, count_v = count \<rparr>)"

definition computeCorrelation :: "row list \<Rightarrow> string \<Rightarrow> string \<Rightarrow> jsnum" where
  "computeCorrelation data x y =
     (let xVals = map (\<lambda>d. parseVal (cell d x)) data;
          yVals = map (\<lambda>d. parseVal (cell d y)) data;
          n = length xVals
      in if n < 2 then Fin 0
         else
           let sumX = sum_nums xVals;
               sumY = sum_nums yVals;
               sumXY = foldl (\<lambda>a (v, w). js_add a (js_mul v w)) (Fin 0) (zip xVals yVals);
               sumX2 = foldl (\<lambda>a v. js_add a (js_mul v v)) (Fin 0) xVals;
               sumY2 = foldl (\<lambda>a v. js_add a (js_mul v v)) (Fin 0) yVals;
               numerator = js_sub (js_mul (Fin (real n)) sumXY) (js_mul sumX sumY);
               denominator =
                 Math_sqrt (js_mul (js_sub (js_mul (Fin (real n)) sumX2) (js_mul sumX sumX))
                                   (js_sub (js_mul (Fin (real n)) sumY2) (js_mul sumY sumY)))
           in if js_seq denominator (Fin 0) then Fin 0 else js_div numerator denominator)"

text \<open>\<open>const k = String(d[x] || 'N/A').trim()\<close>\<close>

definition category_key :: "(jsnum \<Rightarrow> string) \<Rightarrow> row \<Rightarrow> string \<Rightarrow> string" where
  "category_key numToString d x =
     trim (js_String numToString (if js_truthy (cell d x) then cell d x else JStr ''N/A''))"

text \<open>\<open>if (!k || k.toLowerCase() === 'null') return;\<close>\<close>

definition key_excluded :: "string \<Rightarrow> bool" where
  "key_excluded k = (k = [] \<or> toLowerCase k = ''null'')"

text \<open>One call of the \<open>forEach\<close> body: \<open>freq[k] = (freq[k] || 0) + parseVal(d[y])\<close>.\<close>

definition freq_step :: "(jsnum \<Rightarrow> string) \<Rightarrow> string \<Rightarrow> string \<Rightarrow> jsnum obj \<Rightarrow> row \<Rightarrow> jsnum obj" where
  "freq_step numToString x y freq d =
     (let k = category_key numToString d x
      in if key_excluded k then freq
         else obj_set freq k
                (js_add (case obj_get freq k of None \<Rightarrow> Fin 0 | Some v \<Rightarrow> num_or v (Fin 0))
                        (parseVal (cell d y))))"

definition getCategoricalStats ::
  "(jsnum \<Rightarrow> string) \<Rightarrow> row list \<Rightarrow> string \<Rightarrow> string \<Rightarrow> (string \<times> jsnum) list" where
  "getCategoricalStats numToString data x y =
     (let freq = foldl (freq_step numToString x y) [] data
      in array_sort (\<lambda>a b. js_sub (snd b) (snd a)) (Object_entries freq))"


section \<open>The rules as the specification words them\<close>

text \<open>
  The specification states three of the rules on the plain ratio \<open>stdDev/mean\<close>, and
  for the efficiency label on the ratio whose denominator is replaced by \<open>1\<close> when the
  mean is \<open>0\<close>. These are the conditions in those words, to be compared with the ones
  the code evaluates.
\<close>

definition spec_efficiency_precise :: "stats \<Rightarrow> bool" where
  "spec_efficiency_precise st =
     js_lt (js_div (stdDev st) (if js_seq (mean st) (Fin 0) then Fin 1 else mean st)) (Fin (1/2))"

definition spec_reduce_fires :: "stats \<Rightarrow> bool" where
  "spec_reduce_fires st = js_gt (js_div (stdDev st) (mean st)) (Fin (12/10))"

definition spec_stability_critical :: "stats \<Rightarrow> bool" where
  "spec_stability_critical st = js_gt (Math_abs (js_div (stdDev st) (mean st))) (Fin (8/10))"

section \<open>The collection store\<close>

text \<open>
  A stored dataset (the fields of the source, prefixed with \<open>ds_\<close>), and the two
  module variables of the data engine. The collection is an object keyed by dataset id.
\<close>

record schema =
  numerical :: "string list"
  categorical :: "string list"
  temporal :: "string list"

record dataset =
  ds_id :: string
  ds_name :: string
  ds_data :: "row list"
  ds_headers :: "string list"
  ds_schema :: schema
  ds_hash :: string

record data_engine =
  datasetCollection :: "dataset obj"
  masterData :: "row list"

text \<open>
  \<open>datasetCollection[id].data\<close>, for an \<open>id\<close> taken from \<open>Object.keys(datasetCollection)\<close>,
  so the dataset is there.
\<close>

definition dataset_rows :: "dataset obj \<Rightarrow> string \<Rightarrow> row list" where
  "dataset_rows coll i = (case obj_get coll i of None \<Rightarrow> [] | Some ds \<Rightarrow> ds_data ds)"

text \<open>
  \<open>prepareMasterData(mode)\<close>: the state before, the state after. The mode is whatever value
  the caller passes; \<open>===\<close> holds only for the very string.
\<close>

definition prepareMasterData :: "jsval \<Rightarrow> data_engine \<Rightarrow> data_engine" where
  "prepareMasterData mode s =
     (let ids = Object_keys (datasetCollection s)
      in if length ids = 0 then s\<lparr>masterData := []\<rparr>
         else if mode = JStr ''single''
           then s\<lparr>masterData := dataset_rows (datasetCollection s) (last ids)\<rparr>
         else if mode = JStr ''union''
           then s\<lparr>masterData := concat (map (dataset_rows (datasetCollection s)) ids)\<rparr>
         else if mode = JStr ''compare''
           then s\<lparr>masterData := dataset_rows (datasetCollection s) (last ids)\<rparr>
         else s)"

section \<open>Finite numbers\<close>

text \<open>
  The numbers that are neither \<open>NaN\<close> nor an infinity, and the real a finite number is.
  Every cell that is not itself a number coerces to a finite number.
\<close>

fun js_finite :: "jsnum \<Rightarrow> bool" where
  "js_finite (Fin a) = True"
| "js_finite _ = False"


section \<open>The Pearson coefficient as the specification words it\<close>


section \<open>Groups in first-encounter order\<close>


section \<open>The audit\<close>

text \<open>
  \<open>generateHash\<close>: the rolling hash over the code units of \<open>JSON.stringify(data)\<close>, kept
  in 32 bits by \<open>hash |= 0\<close>, printed in base 36 with a sign. The serialisation is the
  language's own and is taken as the parameter \<open>stringify\<close>.
\<close>

definition hash_step :: "32 word \<Rightarrow> char \<Rightarrow> 32 word" where
  "hash_step h c = (push_bit 5 h - h) + of_nat (of_char c)"

definition digit36 :: "nat \<Rightarrow> char" where
  "digit36 d = ''0123456789abcdefghijklmnopqrstuvwxyz'' ! d"

fun digits36 :: "nat \<Rightarrow> string" where
  "digits36 n = (if n < 36 then [digit36 n] else digits36 (n div 36) @ [digit36 (n mod 36)])"

definition toString36 :: "int \<Rightarrow> string" where
  "toString36 i = (if i < 0 then CHR ''-'' # digits36 (nat (- i)) else digits36 (nat i))"

definition generateHash :: "(row list \<Rightarrow> string) \<Rightarrow> row list \<Rightarrow> string" where
  "generateHash stringify data = toString36 (sint (foldl hash_step 0 (stringify data)))"

text \<open>
  \<open>cleanLabel\<close>. The three \<open>replace\<close> calls in turn: \<open>_\<close> and \<open>-\<close> become spaces; a space
  goes between a lower-case letter and an upper-case letter that follows it; one final
  \<open>Id\<close>, \<open>Key\<close>, \<open>Dataset\<close> or \<open>Value\<close>, in any letter case, is removed. Then the text is
  trimmed and every word between single spaces is capitalised.
\<close>

fun split_camel :: "string \<Rightarrow> string" where
  "split_camel (a # b # r) =
     (if is_lower a \<and> is_upper b then a # CHR '' '' # split_camel (b # r)
      else a # split_camel (b # r))"
| "split_camel s = s"

definition ends_with :: "string \<Rightarrow> string \<Rightarrow> bool" where
  "ends_with suf s = (length suf \<le> length s \<and> drop (length s - length suf) s = suf)"

definition drop_last :: "nat \<Rightarrow> string \<Rightarrow> string" where
  "drop_last n s = take (length s - n) s"

definition strip_suffix :: "string \<Rightarrow> string" where
  "strip_suffix s =
     (let l = toLowerCase s
      in if ends_with ''dataset'' l then drop_last 7 s
         else if ends_with ''value'' l then drop_last 5 s
         else if ends_with ''key'' l then drop_last 3 s
         else if ends_with ''id'' l then drop_last 2 s
         else s)"

fun title_case :: "bool \<Rightarrow> string \<Rightarrow> string" where
  "title_case start [] = []"
| "title_case start (c # r) =
     (if c = CHR '' '' then c # title_case True r
      else (if start then upper_char c else lower_char c) # title_case False r)"

definition cleanLabel :: "string \<Rightarrow> string" where
  "cleanLabel lbl =
     (if lbl = [] then ''N/A''
      else title_case True (trim (strip_suffix (split_camel
             (map (\<lambda>c. if c = CHR ''_'' \<or> c = CHR ''-'' then CHR '' '' else c) lbl)))))"

text \<open>
  \<open>parseFloat(n.toFixed(1))\<close>: the number rounded to one decimal, a tie going away from
  zero. From \<open>1e21\<close> on \<open>toFixed\<close> prints the number as \<open>String\<close> does, and parsing that
  gives the number back.
\<close>

fun round1 :: "jsnum \<Rightarrow> jsnum" where
  "round1 (Fin r) =
     (if 10 ^ 21 \<le> \<bar>r\<bar> then Fin r
      else Fin ((if r < 0 then - 1 else 1) * real_of_int \<lfloor>\<bar>r\<bar> * 10 + 1 / 2\<rfloor> / 10))"
| "round1 n = n"

text \<open>
  The records of an analysis result. The field \<open>ranges\<close> of the source is left out; the
  fields \<open>interpretation\<close> and \<open>biInterpretation\<close> carry the suffix \<open>_v\<close>.
\<close>

record metrics =
  totalVolume :: jsnum
  averageIntensity :: jsnum
  peakMagnitude :: jsnum
  nodeCount :: nat
  m_volShift :: jsnum
  m_peakShift :: jsnum
  m_correlation :: jsnum

record peaks_rec =
  point :: string
  value_v :: jsnum
  intensity :: template

record driver =
  drv_name :: string
  drv_value :: jsnum
  drv_concentration :: template

record report_section =
  title :: string
  content :: template

record labels_rec =
  lab_x :: string
  lab_y :: string

record analysis_result =
  version :: string
  timestamp :: string
  trackId :: string
  hash :: string
  labels :: labels_rec
  statisticsModel :: "stats obj"
  mainStats :: stats
  metrics :: metrics
  statistics :: stats
  interpretation_v :: biInterpretation
  biInterpretation_v :: biInterpretation
  impactMatrix :: "impact list"
  advisory :: "advice list"
  peaks :: peaks_rec
  dominantDrivers :: "driver list"
  distributions :: "(string \<times> jsnum) list"
  isDelta :: bool
  reportSections :: "report_section list"

text \<open>
  A result as it is kept: in the history, in the store, as the last result of the window.
  An entry read back from the store may be of an older format, so every property may be
  missing.
\<close>

record stored_result =
  s_timestamp :: "string option"
  s_trackId :: "string option"
  s_hash :: "string option"
  s_statisticsModel :: "stats obj option"
  s_metrics :: "metrics option"
  s_impactMatrix :: "impact list option"
  s_advisory :: "advice list option"
  s_peaks :: "peaks_rec option"
  s_distributions :: "(string \<times> jsnum) list option"
  s_reportSections :: "report_section list option"

definition stored :: "analysis_result \<Rightarrow> stored_result" where
  "stored r =
     \<lparr> s_timestamp = Some (timestamp r), s_trackId = Some (trackId r), s_hash = Some (hash r),
       s_statisticsModel = Some (statisticsModel r), s_metrics = Some (metrics r),
       s_impactMatrix = Some (impactMatrix r), s_advisory = Some (advisory r),
       s_peaks = Some (peaks r), s_distributions = Some (distributions r),
       s_reportSections = Some (reportSections r) \<rparr>"

text \<open>
  What a run reads from outside: the clock (\<open>new Date().toISOString()\<close>) and the text
  of \<open>Math.random().toString(36)\<close>.
\<close>

record run_env =
  iso_now :: string
  random36 :: string

datatype error = TypeError

text \<open>
  The keys of the first row whose value coerces to a number and is not a boolean, and the
  statistics of each of them that has any.
\<close>

definition numericFields :: "row \<Rightarrow> string list" where
  "numericFields firstRow =
     filter (\<lambda>k. \<not> isNaN (parseVal (cell firstRow k))
                 \<and> (case cell firstRow k of JBool b \<Rightarrow> False | _ \<Rightarrow> True))
            (Object_keys firstRow)"

definition build_statisticsModel :: "row list \<Rightarrow> stats obj" where
  "build_statisticsModel masterData_v =
     foldl (\<lambda>m field. case computeFullStats masterData_v field of
                          None \<Rightarrow> m | Some st \<Rightarrow> obj_set m field st)
           [] (numericFields (case masterData_v of [] \<Rightarrow> [] | d # _ \<Rightarrow> d))"

definition shift_pct :: "jsnum \<Rightarrow> jsnum \<Rightarrow> jsnum" where
  "shift_pct now prev = round1 (js_mul (js_div (js_sub now prev) (num_or prev (Fin 1))) (Fin 100))"

definition compute_shifts :: "stats \<Rightarrow> stored_result list \<Rightarrow> shifts" where
  "compute_shifts st history =
     (case history of
        [] \<Rightarrow> \<lparr> volShift = Fin 0, peakShift = Fin 0 \<rparr>
      | h # _ \<Rightarrow>
          (case s_metrics h of
             None \<Rightarrow> \<lparr> volShift = Fin 0, peakShift = Fin 0 \<rparr>
           | Some prev \<Rightarrow>
               \<lparr> volShift = shift_pct (sum_v st) (totalVolume prev),
                 peakShift = shift_pct (max_v st) (peakMagnitude prev) \<rparr>))"

definition execSummary :: "biInterpretation \<Rightarrow> stats \<Rightarrow> string \<Rightarrow> template" where
  "execSummary bi st dominantContributor =
     [Lit ''Dataset identifies a '', Lit (operationalState bi), Lit '' state across '',
      LocaleStr (Fin (real (count_v st))), Lit '' nodes. Main contributor ['',
      Lit dominantContributor, Lit ''] accounts for '', Fixed (concentration_of st) 1,
      Lit ''% of total volume. Operational variance is '',
      Lit (if js_gt (stdDev st) (mean st) then ''high'' else ''stable''),
      Lit '', indicating a '', Lit (toLowerCase (efficiencyObservation bi)), Lit '' baseline.'']"

definition relational_section :: "jsnum \<Rightarrow> string \<Rightarrow> string \<Rightarrow> template" where
  "relational_section correlation xLab yLab =
     [Lit ''A '',
      Lit (if js_gt (Math_abs correlation) (Fin (7/10)) then ''strong''
           else if js_gt (Math_abs correlation) (Fin (4/10)) then ''moderate'' else ''weak''),
      Lit '' correlation ('', Fixed correlation 2, Lit '') exists between '', Lit xLab,
      Lit '' and '', Lit yLab, Lit ''.'']"

text \<open>
  \<open>runAuditLogic\<close>. The payload fields \<open>mode\<close> and \<open>collection\<close> are not read. When the
  metric column has no statistics, \<open>mainStats\<close> is \<open>null\<close> and the first read of one of its
  properties throws.
\<close>

definition runAuditLogic ::
  "(row list \<Rightarrow> string) \<Rightarrow> (jsnum \<Rightarrow> string) \<Rightarrow> run_env \<Rightarrow> string \<Rightarrow> string \<Rightarrow> row list
     \<Rightarrow> stored_result list \<Rightarrow> string option \<Rightarrow> error + analysis_result" where
  "runAuditLogic stringify numToString env x y masterData_v history lastHash =
     (let currentHash = generateHash stringify masterData_v;
          model = build_statisticsModel masterData_v;
          main_opt = (case obj_get model y of
                        Some st \<Rightarrow> Some st | None \<Rightarrow> computeFullStats masterData_v y);
          correlation = computeCorrelation masterData_v x y;
          categorical = getCategoricalStats numToString masterData_v x y
      in case main_opt of
           None \<Rightarrow> Inl TypeError
         | Some st \<Rightarrow>
             let sh = compute_shifts st history;
                 xLab = cleanLabel x;
                 yLab = cleanLabel y;
                 dominantContributor = (case categorical of [] \<Rightarrow> ''N/A'' | e # _ \<Rightarrow> fst e);
                 br = biAnalystBrain st sh correlation xLab yLab dominantContributor
             in Inr \<lparr> version = ''v22.0'',
                      timestamp = iso_now env,
                      trackId = ''TRK_'' @ toUpperCase (take 5 (drop 2 (random36 env))),
                      hash = currentHash,
                      labels = \<lparr> lab_x = xLab, lab_y = yLab \<rparr>,
                      statisticsModel = model,
                      mainStats = st,
                      metrics = \<lparr> totalVolume = sum_v st, averageIntensity = mean st,
                                  peakMagnitude = max_v st, nodeCount = count_v st,
                                  m_volShift = volShift sh, m_peakShift = peakShift sh,
                                  m_correlation = correlation \<rparr>,
                      statistics = st,
                      interpretation_v = brain_biInterpretation br,
                      biInterpretation_v = brain_biInterpretation br,
                      impactMatrix = brain_impactMatrix br,
                      advisory = brain_advisory br,
                      peaks = \<lparr> point = dominantContributor, value_v = max_v st,
                                intensity = [Fixed (js_div (max_v st) (num_or (mean st) (Fin 1))) 2,
                                             Lit ''x''] \<rparr>,
                      dominantDrivers =
                        map (\<lambda>e. \<lparr> drv_name = fst e, drv_value = snd e,
                                    drv_concentration =
                                      [Fixed (js_mul (js_div (snd e) (sum_v st)) (Fin 100)) 1,
                                       Lit ''%''] \<rparr>)
                            (take 5 categorical),
                      distributions = categorical,
                      isDelta = (Some currentHash \<noteq> lastHash),
                      reportSections =
                        [\<lparr> title = ''Executive Summary'',
                           content = execSummary (brain_biInterpretation br) st dominantContributor \<rparr>,
                         \<lparr> title = ''Relational Analysis'',
                           content = relational_section correlation xLab yLab \<rparr>] \<rparr>)"

text \<open>
  The module variables of the reasoning engine, and one analysis on the calling thread:
  the history is read from the store when the cached one is empty, the audit runs on the
  first five entries and the last hash, and \<open>finishAnalysis\<close> records the result. (The
  worker, when there is one, runs the same \<open>runAuditLogic\<close> on the same payload.)
\<close>

record reasoning_state =
  auditHistory :: "stored_result list"
  lastAnalysisHash :: "string option"

definition finishAnalysis :: "analysis_result \<Rightarrow> reasoning_state \<Rightarrow> reasoning_state" where
  "finishAnalysis results s =
     (let s1 = s\<lparr>lastAnalysisHash := Some (hash results)\<rparr>
      in case auditHistory s1 of
           [] \<Rightarrow> s1\<lparr>auditHistory := [stored results]\<rparr>
         | h # _ \<Rightarrow>
             if s_timestamp h \<noteq> Some (timestamp results)
             then s1\<lparr>auditHistory := stored results # auditHistory s1\<rparr>
             else s1)"

definition executeAnalysis ::
  "(row list \<Rightarrow> string) \<Rightarrow> (jsnum \<Rightarrow> string) \<Rightarrow> stored_result list \<Rightarrow> run_env
     \<Rightarrow> string \<Rightarrow> string \<Rightarrow> row list \<Rightarrow> reasoning_state
     \<Rightarrow> (error + analysis_result) \<times> reasoning_state" where
  "executeAnalysis stringify numToString persisted env x y masterData_v s =
     (let s1 = (if length (auditHistory s) = 0 then s\<lparr>auditHistory := persisted\<rparr> else s)
      in case runAuditLogic stringify numToString env x y masterData_v
                (take 5 (auditHistory s1)) (lastAnalysisHash s1) of
           Inl e \<Rightarrow> (Inl e, s1)
         | Inr results \<Rightarrow> (Inr results, finishAnalysis results s1))"

section \<open>Report export\<close>

text \<open>
  The chart snapshots of the renderer, and what the export reads from the page: the
  markup of the report element (\<open>None\<close> when the element is missing) and what
  \<open>window.open\<close> does.
\<close>

record snapshots =
  mainEffect :: "string option"
  reportChart :: "string option"

datatype window_open = Opened | Refused | Threw

record export_env =
  report_text :: "string option"
  open_result :: window_open

record report_doc =
  doc_trackId :: "string option"
  doc_hash :: "string option"
  doc_certified :: bool
  doc_body :: string

text \<open>
  What a call of \<open>exportReport\<close> ends in: nothing at all (no last result); the alert that
  the report is incomplete and the export blocked; an uncaught exception; the document
  in a new window; the alert that the popup was blocked; the logged pipeline error.
\<close>

datatype export_outcome =
  NoResult | Blocked | Crashed error | Exported report_doc | PopupBlocked | PipelineError

definition text_truthy :: "string option \<Rightarrow> bool" where
  "text_truthy t = (case t of None \<Rightarrow> False | Some s \<Rightarrow> s \<noteq> [])"

text \<open>\<open>validateReportCompleteness\<close>: the five checks, all of which must be \<open>true\<close>.\<close>

definition validateReportCompleteness :: "stored_result \<Rightarrow> snapshots \<Rightarrow> bool" where
  "validateReportCompleteness results snaps =
     (let summary = (case s_reportSections results of Some (sec # _) \<Rightarrow> True | _ \<Rightarrow> False);
          stats_ok = (s_statisticsModel results \<noteq> None);
          graph = text_truthy (reportChart snaps);
          peaks_ok = (s_peaks results \<noteq> None);
          advisory_ok = (case s_advisory results of Some a \<Rightarrow> 0 < length a | None \<Rightarrow> False)
      in list_all (\<lambda>v. v = True) [summary, stats_ok, graph, peaks_ok, advisory_ok])"

text \<open>\<open>AdminConsole.verifyCertification\<close>, for a result that is there: its \<open>certified\<close> flag.\<close>

definition verifyCertification :: "stored_result \<Rightarrow> bool" where
  "verifyCertification results =
     (s_statisticsModel results \<noteq> None
      \<and> (case s_distributions results of Some ds \<Rightarrow> 0 < length ds | None \<Rightarrow> False)
      \<and> s_metrics results \<noteq> None
      \<and> (case s_advisory results of Some a \<Rightarrow> 0 < length a | None \<Rightarrow> False)
      \<and> text_truthy (s_trackId results))"

definition exportReport :: "export_env \<Rightarrow> stored_result option \<Rightarrow> snapshots \<Rightarrow> export_outcome" where
  "exportReport env last_result snaps =
     (case last_result of
        None \<Rightarrow> NoResult
      | Some results \<Rightarrow>
          if \<not> validateReportCompleteness results snaps then Blocked
          else
            (case report_text env of
               None \<Rightarrow> Crashed TypeError
             | Some body \<Rightarrow>
                 (case open_result env of
                    Threw \<Rightarrow> PipelineError
                  | Refused \<Rightarrow> PopupBlocked
                  | Opened \<Rightarrow>
                      Exported \<lparr> doc_trackId = s_trackId results, doc_hash = s_hash results,
                                 doc_certified = verifyCertification results,
                                 doc_body = body \<rparr>)))"

text \<open>
  The completeness predicate as the specification words it: a narrative section, a
  statistics model, a chart snapshot, at least one impact entry, a non-empty advisory
  list.
\<close>

definition spec_complete :: "stored_result \<Rightarrow> snapshots \<Rightarrow> bool" where
  "spec_complete results snaps =
     ((case s_reportSections results of Some (sec # _) \<Rightarrow> True | _ \<Rightarrow> False)
      \<and> s_statisticsModel results \<noteq> None
      \<and> text_truthy (reportChart snaps)
      \<and> (case s_impactMatrix results of Some m \<Rightarrow> 0 < length m | None \<Rightarrow> False)
      \<and> (case s_advisory results of Some a \<Rightarrow> 0 < length a | None \<Rightarrow> False))"

section \<open>Properties\<close>

subsection \<open>Numbers\<close>

lemma num_truthy_iff: "num_truthy n = (n \<noteq> Fin 0 \<and> n \<noteq> NaN)"
  by (cases n) auto

lemma num_or_one: "num_or n (Fin 1) = (if n = Fin 0 \<or> n = NaN then Fin 1 else n)"
  by (simp add: num_or_def num_truthy_iff)

lemma sort_pair:
  "array_sort js_sub [Fin a, Fin b] = (if b < a then [Fin b, Fin a] else [Fin a, Fin b])"
  by (simp add: array_sort_def js_sub_def js_gt_def)

lemmas coerce_defs =
  coerce_text_def parseFloat_def strip_non_numeric_def is_digit_def digits_val_def
  digit_val_def num_or_def

lemmas stats_defs =
  computeFullStats_def column_nums_def cell_def obj_get_def sum_nums_def median_of_def
  variance_of_def js_sub_def

subsection \<open>The interpretation labels\<close>

text \<open>
  C4. With the concentration \<open>100 * max / sum\<close>, whose denominator is \<open>1\<close> when the sum is
  \<open>0\<close> or \<open>NaN\<close>: the operational state is the highly concentrated label when the
  concentration exceeds 50 and the balanced one otherwise; the concentration risk is the
  critical dependency label when it exceeds 40 and stable diversification otherwise; the
  stability assessment is the steady label when the absolute volume shift is below 10 and
  the volatile one otherwise; the efficiency observation is the precise label when the
  mean is greater than \<open>0\<close> and \<open>stdDev / mean\<close> is below \<open>0.5\<close>, and the dispersed one
  otherwise (so it is always the dispersed one for a mean of \<open>0\<close> or below).
\<close>

theorem interpretation_thresholds:
  "(let bi = brain_biInterpretation (biAnalystBrain st sh corr xLabel yLabel dc);
        conc = js_mul (js_div (max_v st)
                 (if sum_v st = Fin 0 \<or> sum_v st = NaN then Fin 1 else sum_v st)) (Fin 100)
    in operationalState bi =
         (if js_gt conc (Fin 50) then ''Highly Concentrated (Siloed)''
          else ''Balanced (Distributed)'')
     \<and> concentrationRisk bi =
         (if js_gt conc (Fin 40) then ''Critical Alpha Dependency''
          else ''Stable Diversification'')
     \<and> stabilityAssessment bi =
         (if js_lt (Math_abs (volShift sh)) (Fin 10) then ''Steady-State Operational''
          else ''Volatile Flow Change'')
     \<and> efficiencyObservation bi =
         (if js_gt (mean st) (Fin 0) \<and> js_lt (js_div (stdDev st) (mean st)) (Fin (1/2))
          then ''High Precision Flow'' else ''Dispersed Intensity''))"
  by (simp add: biAnalystBrain_def interpretation_of_def concentration_of_def num_or_one Let_def)

text \<open>
  A column of two zeros has mean \<open>0\<close> and standard deviation \<open>0\<close>. The condition of the
  specification ("\<open>stdDev/mean < 0.5\<close>, the denominator replaced by \<open>1\<close> when the mean is
  \<open>0\<close>") holds of it, and the label is the dispersed one.
\<close>

theorem efficiency_guard_counterexample:
  "computeFullStats [[(''v'', JStr ''0'')], [(''v'', JStr ''0'')]] ''v'' =
     Some \<lparr> mean = Fin 0, median = Fin 0, variance = Fin 0, stdDev = Fin 0,
            min_v = Fin 0, max_v = Fin 0, range_v = Fin 0, peak = Fin 0, lowPoint = Fin 0,
            sum_v = Fin 0, count_v = 2 \<rparr>
   \<and> spec_efficiency_precise
        \<lparr> mean = Fin 0, median = Fin 0, variance = Fin 0, stdDev = Fin 0,
          min_v = Fin 0, max_v = Fin 0, range_v = Fin 0, peak = Fin 0, lowPoint = Fin 0,
          sum_v = Fin 0, count_v = 2 \<rparr>
   \<and> efficiencyObservation (brain_biInterpretation (biAnalystBrain
        \<lparr> mean = Fin 0, median = Fin 0, variance = Fin 0, stdDev = Fin 0,
          min_v = Fin 0, max_v = Fin 0, range_v = Fin 0, peak = Fin 0, lowPoint = Fin 0,
          sum_v = Fin 0, count_v = 2 \<rparr>
        \<lparr> volShift = Fin 0, peakShift = Fin 0 \<rparr> (Fin 0) ''X'' ''V'' ''N/A''))
       = ''Dispersed Intensity''"
  by (simp add: stats_defs coerce_defs sort_pair spec_efficiency_precise_def js_seq_def
      biAnalystBrain_def interpretation_of_def js_gt_def Let_def)

subsection \<open>The advisory list\<close>

text \<open>
  C3. The actions of the advisory list are those of three rules, each evaluated on its
  own and appended in this order: DIVERSIFY when the concentration exceeds 40, MONITOR
  when the absolute volume shift exceeds 15, REDUCE when \<open>stdDev / mean\<close> exceeds \<open>1.2\<close>,
  where the denominator is \<open>1\<close> when the mean is \<open>0\<close> or \<open>NaN\<close>. When none of them
  fired the list is the single action MAINTAIN. So the list is never empty, and MAINTAIN
  appears only alone.
\<close>

theorem advisory_rules:
  "(let acts = map action (brain_advisory (biAnalystBrain st sh corr xLabel yLabel dc));
        conc = js_mul (js_div (max_v st)
                 (if sum_v st = Fin 0 \<or> sum_v st = NaN then Fin 1 else sum_v st)) (Fin 100);
        disp = js_div (stdDev st) (if mean st = Fin 0 \<or> mean st = NaN then Fin 1 else mean st);
        fired = (if js_gt conc (Fin 40) then [''DIVERSIFY''] else [])
              @ (if js_gt (Math_abs (volShift sh)) (Fin 15) then [''MONITOR''] else [])
              @ (if js_gt disp (Fin (12/10)) then [''REDUCE''] else [])
    in acts = (if fired = [] then [''MAINTAIN''] else fired)
     \<and> acts \<noteq> []
     \<and> ((''MAINTAIN'' \<in> set acts) = (acts = [''MAINTAIN''])))"
  by (simp add: biAnalystBrain_def advisory_of_def concentration_of_def dispersion_of_def
      num_or_one diversify_def monitor_def reduce_def maintain_def Let_def)

text \<open>
  The column \<open>-1, 1\<close> has mean \<open>0\<close> and standard deviation \<open>1\<close>: the plain ratio
  \<open>stdDev/mean\<close> is \<open>Infinity\<close>, above \<open>1.2\<close>, and REDUCE is not in the list.
\<close>

theorem reduce_rule_counterexample:
  "computeFullStats [[(''v'', JStr ''-1'')], [(''v'', JStr ''1'')]] ''v'' =
     Some \<lparr> mean = Fin 0, median = Fin 0, variance = Fin 1, stdDev = Fin 1,
            min_v = Fin (- 1), max_v = Fin 1, range_v = Fin 2, peak = Fin 1,
            lowPoint = Fin (- 1), sum_v = Fin 0, count_v = 2 \<rparr>
   \<and> spec_reduce_fires
        \<lparr> mean = Fin 0, median = Fin 0, variance = Fin 1, stdDev = Fin 1,
          min_v = Fin (- 1), max_v = Fin 1, range_v = Fin 2, peak = Fin 1,
          lowPoint = Fin (- 1), sum_v = Fin 0, count_v = 2 \<rparr>
   \<and> map action (brain_advisory (biAnalystBrain
        \<lparr> mean = Fin 0, median = Fin 0, variance = Fin 1, stdDev = Fin 1,
          min_v = Fin (- 1), max_v = Fin 1, range_v = Fin 2, peak = Fin 1,
          lowPoint = Fin (- 1), sum_v = Fin 0, count_v = 2 \<rparr>
        \<lparr> volShift = Fin 0, peakShift = Fin 0 \<rparr> (Fin 0) ''X'' ''V'' ''N/A''))
       = [''DIVERSIFY'']"
  by (simp add: stats_defs coerce_defs sort_pair spec_reduce_fires_def js_signed_inf_def
      biAnalystBrain_def advisory_of_def concentration_of_def dispersion_of_def
      diversify_def js_gt_def Let_def)

subsection \<open>The impact matrix\<close>

lemma sqrt_quarter: "sqrt (1/4) = 1/2"
  by (rule real_sqrt_unique) (simp_all add: power2_eq_square)

text \<open>
  C9. The impact matrix has exactly three entries, in this order: the dominance entry,
  High when \<open>max > mean * 5\<close> and Medium otherwise; the stability entry, Critical when
  \<open>|stdDev / mean| > 0.8\<close>, where the denominator is \<open>1\<close> when the mean is \<open>0\<close> or \<open>NaN\<close>,
  and Stable otherwise; the relational lock entry, Critical when \<open>|correlation| > 0.7\<close>
  and Weak otherwise. Each detail text interpolates the live numbers (the concentration;
  the variance and the standard deviation; the absolute correlation), and each entry
  carries its fixed trigger description.
\<close>

theorem impact_matrix_entries:
  "(let m = brain_impactMatrix (biAnalystBrain st sh corr xLabel yLabel dc);
        conc = js_mul (js_div (max_v st)
                 (if sum_v st = Fin 0 \<or> sum_v st = NaN then Fin 1 else sum_v st)) (Fin 100);
        disp = js_div (stdDev st) (if mean st = Fin 0 \<or> mean st = NaN then Fin 1 else mean st)
    in length m = 3
     \<and> map label m = [''Alpha Node Leverage'', ''Distribution Stability'', ''Temporal/Relational Lock'']
     \<and> category (m ! 0) =
         (if js_gt (max_v st) (js_mul (mean st) (Fin 5)) then ''High Impact'' else ''Medium Impact'')
     \<and> category (m ! 1) =
         (if js_gt (Math_abs disp) (Fin (8/10)) then ''Critical Risk'' else ''Stable'')
     \<and> category (m ! 2) =
         (if js_gt (Math_abs corr) (Fin (7/10)) then ''Operationally Critical''
          else ''Weak Correlation'')
     \<and> detail (m ! 0) = [Lit ''Dominant contributor ['', Lit dc, Lit ''] controls '',
                          Fixed conc 1, Lit ''% of total volume.'']
     \<and> detail (m ! 1) = [Lit ''Variance measured at '', Fixed (variance st) 1,
                          Lit '' with a StdDev of '', Fixed (stdDev st) 1, Lit ''.'']
     \<and> detail (m ! 2) = [Lit yLabel, Lit '' shows a '', Fixed (Math_abs corr) 2,
                          Lit '' correlation strength with '', Lit xLabel, Lit ''.'']
     \<and> map threshold m =
         [''Concentration > 40% triggers dependency risk.'',
          ''Variance within operational stability threshold.'',
          ''Correlation > 0.7 indicates direct operational dependency.''])"
  by (simp add: biAnalystBrain_def impactMatrix_of_def concentration_of_def dispersion_of_def
      num_or_one Let_def)

text \<open>
  The column \<open>-0.5, 0.5\<close> has mean \<open>0\<close> and standard deviation \<open>0.5\<close>: the plain ratio
  \<open>|stdDev/mean|\<close> is \<open>Infinity\<close>, above \<open>0.8\<close>, and the stability entry is Stable.
\<close>

theorem stability_rule_counterexample:
  "computeFullStats [[(''v'', JStr ''-0.5'')], [(''v'', JStr ''0.5'')]] ''v'' =
     Some \<lparr> mean = Fin 0, median = Fin 0, variance = Fin (1/4), stdDev = Fin (1/2),
            min_v = Fin (- (1/2)), max_v = Fin (1/2), range_v = Fin 1, peak = Fin (1/2),
            lowPoint = Fin (- (1/2)), sum_v = Fin 0, count_v = 2 \<rparr>
   \<and> spec_stability_critical
        \<lparr> mean = Fin 0, median = Fin 0, variance = Fin (1/4), stdDev = Fin (1/2),
          min_v = Fin (- (1/2)), max_v = Fin (1/2), range_v = Fin 1, peak = Fin (1/2),
          lowPoint = Fin (- (1/2)), sum_v = Fin 0, count_v = 2 \<rparr>
   \<and> category (brain_impactMatrix (biAnalystBrain
        \<lparr> mean = Fin 0, median = Fin 0, variance = Fin (1/4), stdDev = Fin (1/2),
          min_v = Fin (- (1/2)), max_v = Fin (1/2), range_v = Fin 1, peak = Fin (1/2),
          lowPoint = Fin (- (1/2)), sum_v = Fin 0, count_v = 2 \<rparr>
        \<lparr> volShift = Fin 0, peakShift = Fin 0 \<rparr> (Fin 0) ''X'' ''V'' ''N/A'') ! 1)
       = ''Stable''"
  by (simp add: stats_defs coerce_defs sort_pair spec_stability_critical_def js_signed_inf_def
      biAnalystBrain_def impactMatrix_of_def dispersion_of_def sqrt_quarter
      js_gt_def Let_def)

subsection \<open>The working row set\<close>

lemma length_Object_entries: "length (Object_entries ob) = length ob"
proof -
  have "length (Object_entries ob) =
      length (filter (\<lambda>p. is_array_index (fst p)) ob)
      + length (filter (\<lambda>p. \<not> is_array_index (fst p)) ob)"
    by (simp add: Object_entries_def)
  then show ?thesis
    by (simp add: sum_length_filter_compl)
qed

lemma Object_keys_empty: "(Object_keys ob = []) = (ob = [])"
proof -
  have "length (Object_keys ob) = length ob"
    by (simp add: Object_keys_def length_Object_entries)
  then show ?thesis
    by (metis length_0_conv)
qed

text \<open>
  C10. When the collection is not empty and the mode is none of \<open>'single'\<close>, \<open>'union'\<close>
  and \<open>'compare'\<close>, preparing the working row set changes nothing: the row set keeps
  the value it held. When the collection is empty the row set becomes the empty
  sequence, whatever the mode. So under such a mode the row set is emptied only for an
  empty collection.
\<close>

theorem prepareMasterData_other_mode:
  "(datasetCollection s \<noteq> [] \<and> mode \<noteq> JStr ''single'' \<and> mode \<noteq> JStr ''union''
      \<and> mode \<noteq> JStr ''compare''
      \<longrightarrow> prepareMasterData mode s = s)
   \<and> (datasetCollection s = [] \<longrightarrow> prepareMasterData mode s = s\<lparr>masterData := []\<rparr>)
   \<and> (mode \<noteq> JStr ''single'' \<and> mode \<noteq> JStr ''union'' \<and> mode \<noteq> JStr ''compare''
      \<and> masterData s \<noteq> [] \<and> masterData (prepareMasterData mode s) = []
      \<longrightarrow> datasetCollection s = [])"
  by (auto simp: prepareMasterData_def Object_keys_empty Let_def)

theorem prepareMasterData_other_mode_witness:
  "prepareMasterData (JStr ''merge'')
     \<lparr> datasetCollection =
         [(''a'', \<lparr> ds_id = ''a'', ds_name = ''a.csv'', ds_data = [[(''v'', JStr ''1'')]],
                   ds_headers = [''v''],
                   ds_schema = \<lparr> numerical = [''v''], categorical = [], temporal = [] \<rparr>,
                   ds_hash = ''0'' \<rparr>)],
       masterData = [[(''w'', JStr ''2'')]] \<rparr>
   = \<lparr> datasetCollection =
         [(''a'', \<lparr> ds_id = ''a'', ds_name = ''a.csv'', ds_data = [[(''v'', JStr ''1'')]],
                   ds_headers = [''v''],
                   ds_schema = \<lparr> numerical = [''v''], categorical = [], temporal = [] \<rparr>,
                   ds_hash = ''0'' \<rparr>)],
       masterData = [[(''w'', JStr ''2'')]] \<rparr>
   \<and> masterData (prepareMasterData JUndefined \<lparr> datasetCollection = [],
         masterData = [[(''w'', JStr ''2'')]] \<rparr>) = []"
  using prepareMasterData_other_mode [of
     "\<lparr> datasetCollection =
         [(''a'', \<lparr> ds_id = ''a'', ds_name = ''a.csv'', ds_data = [[(''v'', JStr ''1'')]],
                   ds_headers = [''v''],
                   ds_schema = \<lparr> numerical = [''v''], categorical = [], temporal = [] \<rparr>,
                   ds_hash = ''0'' \<rparr>)],
       masterData = [[(''w'', JStr ''2'')]] \<rparr>" "JStr ''merge''"]
    prepareMasterData_other_mode [of
     "\<lparr> datasetCollection = [], masterData = [[(''w'', JStr ''2'')]] \<rparr>" JUndefined]
  by simp

subsection \<open>Column statistics\<close>



lemma parseFloat_cases: "parseFloat s = NaN \<or> js_finite (parseFloat s)"
  by (simp add: parseFloat_def Let_def)

lemma coerce_text_finite: "js_finite (coerce_text s)"
  using parseFloat_cases [of "strip_non_numeric s"]
  by (auto simp: coerce_text_def num_or_def)

lemma parseVal_NaN_iff: "isNaN (parseVal v) = (v = JNum NaN)"
proof (cases v)
  case (JNum n)
  then show ?thesis by (cases n) auto
next
  case (JStr s)
  then show ?thesis using coerce_text_finite [of s] by (cases "coerce_text s") auto
next
  case (JBool b)
  then show ?thesis
    using coerce_text_finite [of "if b then ''true'' else []"]
    by (cases "coerce_text (if b then ''true'' else [])") auto
next
  case JNull
  then show ?thesis using coerce_text_finite [of "[]"] by (cases "coerce_text []") auto
next
  case JUndefined
  then show ?thesis using coerce_text_finite [of "[]"] by (cases "coerce_text []") auto
qed

lemma parseVal_finite: "(\<And>n. v \<noteq> JNum n) \<Longrightarrow> js_finite (parseVal v)"
  by (cases v) (auto simp: coerce_text_finite)

























lemma computeFullStats_None_iff:
  "(computeFullStats data field = None) = list_all (\<lambda>d. cell d field = JNum NaN) data"
proof -
  have "(computeFullStats data field = None) = (column_nums data field = [])"
    by (simp add: computeFullStats_def Let_def)
  also have "\<dots> = list_all (\<lambda>d. cell d field = JNum NaN) data"
    by (simp add: column_nums_def filter_empty_conv list_all_iff parseVal_NaN_iff)
  finally show ?thesis .
qed






subsection \<open>Correlation\<close>














subsection \<open>Categorical aggregation\<close>






















subsection \<open>Report export\<close>

text \<open>
  C2. The completeness check holds exactly when the first narrative section, the
  statistics model, the chart snapshot and the peaks record are there and the advisory
  list is not empty; the impact matrix is not looked at. For a last result that is
  there, the export ends in the alert that the report is incomplete exactly when the
  check fails, and it produces a document exactly when the check holds, the report
  element is on the page and the new window opens. With no last result the export
  returns with no effect at all.
\<close>

theorem export_completeness:
  "validateReportCompleteness r snaps =
     ((case s_reportSections r of Some (sec # rest) \<Rightarrow> True | _ \<Rightarrow> False)
      \<and> s_statisticsModel r \<noteq> None
      \<and> text_truthy (reportChart snaps)
      \<and> s_peaks r \<noteq> None
      \<and> (case s_advisory r of Some a \<Rightarrow> a \<noteq> [] | None \<Rightarrow> False))
   \<and> (exportReport env (Some r) snaps = Blocked) = (\<not> validateReportCompleteness r snaps)
   \<and> (\<exists>doc. exportReport env (Some r) snaps = Exported doc)
       = (validateReportCompleteness r snaps \<and> report_text env \<noteq> None \<and> open_result env = Opened)
   \<and> exportReport env None snaps = NoResult"
  by (auto simp: validateReportCompleteness_def exportReport_def Let_def
      split: option.splits list.splits window_open.splits)

text \<open>
  A stored result with a peaks record and an empty impact matrix: the predicate of the
  specification fails (no impact entry), and the export produces the document.
\<close>

theorem export_without_impact_counterexample:
  "\<not> spec_complete
       \<lparr> s_timestamp = Some ''2026-01-01T00:00:00.000Z'', s_trackId = Some ''TRK_AB12C'',
         s_hash = Some ''1x2y'', s_statisticsModel = Some [], s_metrics = None,
         s_impactMatrix = Some [], s_advisory = Some [maintain],
         s_peaks = Some \<lparr> point = ''N/A'', value_v = Fin 0,
                            intensity = [Fixed (Fin 0) 2, Lit ''x''] \<rparr>,
         s_distributions = None,
         s_reportSections = Some [\<lparr> title = ''Executive Summary'', content = [Lit ''Summary''] \<rparr>] \<rparr>
       \<lparr> mainEffect = None, reportChart = Some ''data:image/png'' \<rparr>
   \<and> exportReport \<lparr> report_text = Some ''report'', open_result = Opened \<rparr>
       (Some \<lparr> s_timestamp = Some ''2026-01-01T00:00:00.000Z'', s_trackId = Some ''TRK_AB12C'',
         s_hash = Some ''1x2y'', s_statisticsModel = Some [], s_metrics = None,
         s_impactMatrix = Some [], s_advisory = Some [maintain],
         s_peaks = Some \<lparr> point = ''N/A'', value_v = Fin 0,
                            intensity = [Fixed (Fin 0) 2, Lit ''x''] \<rparr>,
         s_distributions = None,
         s_reportSections = Some [\<lparr> title = ''Executive Summary'', content = [Lit ''Summary''] \<rparr>] \<rparr>)
       \<lparr> mainEffect = None, reportChart = Some ''data:image/png'' \<rparr>
     = Exported \<lparr> doc_trackId = Some ''TRK_AB12C'', doc_hash = Some ''1x2y'',
                  doc_certified = False, doc_body = ''report'' \<rparr>"
  by (simp add: spec_complete_def exportReport_def validateReportCompleteness_def
      verifyCertification_def text_truthy_def)

subsection \<open>Repeated audits\<close>

lemma runAuditLogic_fields:
  assumes "runAuditLogic ser ns env x y rows hist lh = Inr r"
  shows "hash r = generateHash ser rows"
    and "isDelta r = (Some (generateHash ser rows) \<noteq> lh)"
    and "statisticsModel r = build_statisticsModel rows"
    and "Some (mainStats r) = (case obj_get (build_statisticsModel rows) y of
                                 Some st \<Rightarrow> Some st | None \<Rightarrow> computeFullStats rows y)"
    and "statistics r = mainStats r"
    and "distributions r = getCategoricalStats ns rows x y"
    and "m_correlation (metrics r) = computeCorrelation rows x y"
    and "labels r = \<lparr> lab_x = cleanLabel x, lab_y = cleanLabel y \<rparr>"
    and "timestamp r = iso_now env"
    and "trackId r = ''TRK_'' @ toUpperCase (take 5 (drop 2 (random36 env)))"
  using assms by (auto simp: runAuditLogic_def Let_def split: option.splits)

lemma runAuditLogic_returns:
  "(\<exists>r. runAuditLogic ser ns env x y rows hist lh = Inr r)
     = ((case obj_get (build_statisticsModel rows) y of
           Some st \<Rightarrow> Some st | None \<Rightarrow> computeFullStats rows y) \<noteq> None)"
  by (auto simp: runAuditLogic_def Let_def split: option.splits)

lemma finishAnalysis_lastHash: "lastAnalysisHash (finishAnalysis r s) = Some (hash r)"
  by (simp add: finishAnalysis_def Let_def split: list.splits)

lemma executeAnalysis_Inr:
  assumes "executeAnalysis ser ns p env x y rows s = (Inr r, s')"
  shows "runAuditLogic ser ns env x y rows
           (take 5 (if length (auditHistory s) = 0 then p else auditHistory s))
           (lastAnalysisHash s) = Inr r"
    and "lastAnalysisHash s' = Some (hash r)"
  using assms
  by (auto simp: executeAnalysis_def Let_def finishAnalysis_lastHash split: sum.splits if_splits)

text \<open>
  C7. When an analysis of a row set returns a result, the next analysis of the same
  rows with the same columns returns a result too, with the same content hash, the same
  statistics (the model of all columns and the main statistics), the same categorical
  aggregation, correlation and labels. Its \<open>isDelta\<close> flag is \<open>false\<close>, whatever the flag of
  the first result was, and its timestamp and track id are those of its own run; the
  shifts against the previous result, and what is derived from them, are not tied to
  those of the first result.
\<close>

theorem repeated_audit:
  assumes run1: "executeAnalysis ser ns p1 e1 x y rows s0 = (Inr r1, s1)"
  shows "\<exists>r2 s2. executeAnalysis ser ns p2 e2 x y rows s1 = (Inr r2, s2)
     \<and> hash r2 = hash r1
     \<and> statisticsModel r2 = statisticsModel r1
     \<and> mainStats r2 = mainStats r1
     \<and> statistics r2 = statistics r1
     \<and> distributions r2 = distributions r1
     \<and> m_correlation (metrics r2) = m_correlation (metrics r1)
     \<and> labels r2 = labels r1
     \<and> isDelta r2 = False
     \<and> timestamp r2 = iso_now e2
     \<and> trackId r2 = ''TRK_'' @ toUpperCase (take 5 (drop 2 (random36 e2)))"
proof -
  let ?h1 = "take 5 (if length (auditHistory s0) = 0 then p1 else auditHistory s0)"
  let ?h2 = "take 5 (if length (auditHistory s1) = 0 then p2 else auditHistory s1)"
  have first: "runAuditLogic ser ns e1 x y rows ?h1 (lastAnalysisHash s0) = Inr r1"
    and last1: "lastAnalysisHash s1 = Some (hash r1)"
    using executeAnalysis_Inr [OF run1] by auto
  have ok: "(case obj_get (build_statisticsModel rows) y of
               Some st \<Rightarrow> Some st | None \<Rightarrow> computeFullStats rows y) \<noteq> None"
    using first runAuditLogic_returns [of ser ns e1 x y rows ?h1 "lastAnalysisHash s0"]
    by blast
  obtain r2 where second: "runAuditLogic ser ns e2 x y rows ?h2 (lastAnalysisHash s1) = Inr r2"
    using ok runAuditLogic_returns [of ser ns e2 x y rows ?h2 "lastAnalysisHash s1"]
    by blast
  let ?s1' = "if length (auditHistory s1) = 0 then s1\<lparr>auditHistory := p2\<rparr> else s1"
  have hist: "auditHistory ?s1' = (if length (auditHistory s1) = 0 then p2 else auditHistory s1)"
    and lh: "lastAnalysisHash ?s1' = lastAnalysisHash s1"
    by auto
  have exec: "executeAnalysis ser ns p2 e2 x y rows s1 = (Inr r2, finishAnalysis r2 ?s1')"
    unfolding executeAnalysis_def Let_def hist lh
    using second by (simp add: if_distrib [of "take 5"])
  have h: "hash r2 = hash r1"
    using runAuditLogic_fields(1) [OF first] runAuditLogic_fields(1) [OF second] by simp
  have d: "isDelta r2 = False"
    using runAuditLogic_fields(2) [OF second] runAuditLogic_fields(1) [OF first] last1 by simp
  have m: "Some (mainStats r2) = Some (mainStats r1)"
    using runAuditLogic_fields(4) [OF first] runAuditLogic_fields(4) [OF second] by simp
  show ?thesis
    using exec h d m
      runAuditLogic_fields(3,5,6,7,8) [OF first]
      runAuditLogic_fields(3,5,6,7,8,9,10) [OF second]
    by simp
qed

lemma executeAnalysis_succeeds:
  assumes "computeFullStats rows y \<noteq> None"
  shows "\<exists>r. fst (executeAnalysis ser ns p env x y rows s) = Inr r
             \<and> isDelta r = (Some (generateHash ser rows) \<noteq> lastAnalysisHash s)
             \<and> hash r = generateHash ser rows"
proof -
  let ?h = "take 5 (auditHistory (if length (auditHistory s) = 0 then s\<lparr>auditHistory := p\<rparr> else s))"
  let ?l = "lastAnalysisHash (if length (auditHistory s) = 0 then s\<lparr>auditHistory := p\<rparr> else s)"
  have "(case obj_get (build_statisticsModel rows) y of
           Some st \<Rightarrow> Some st | None \<Rightarrow> computeFullStats rows y) \<noteq> None"
    using assms by (simp split: option.splits)
  then obtain r where r: "runAuditLogic ser ns env x y rows ?h ?l = Inr r"
    using runAuditLogic_returns [of ser ns env x y rows ?h ?l] by blast
  have l: "?l = lastAnalysisHash s" by simp
  have "fst (executeAnalysis ser ns p env x y rows s) = Inr r"
    by (simp only: executeAnalysis_def Let_def r sum.case fst_conv)
  then show ?thesis
    using runAuditLogic_fields(1,2) [OF r] l by simp
qed

text \<open>
  Two analyses of the one-row set \<open>[{c: "a", v: "100"}]\<close> in a fresh session (no history,
  no last hash): the first result has \<open>isDelta = true\<close>, the second \<open>isDelta = false\<close>, so
  the two differ in more than the track id and the timestamp.
\<close>

theorem second_run_not_delta_counterexample:
  \<open>(let ser = (\<lambda>d. ''[{"c":"a","v":"100"}]'');
        rows = [[(''c'', JStr ''a''), (''v'', JStr ''100'')]];
        run1 = executeAnalysis ser (\<lambda>n. []) []
                 \<lparr> iso_now = ''2026-01-01T10:00:00.000Z'', random36 = ''0.4fzyo82mvyr'' \<rparr>
                 ''c'' ''v'' rows \<lparr> auditHistory = [], lastAnalysisHash = None \<rparr>;
        run2 = executeAnalysis ser (\<lambda>n. []) []
                 \<lparr> iso_now = ''2026-01-01T10:01:00.000Z'', random36 = ''0.9k2m4x7qp1c'' \<rparr>
                 ''c'' ''v'' rows (snd run1)
    in map_sum id isDelta (fst run1) = Inr True
     \<and> map_sum id isDelta (fst run2) = Inr False)\<close>
proof -
  let ?ser = \<open>\<lambda>d :: row list. ''[{"c":"a","v":"100"}]''\<close>
  let ?rows = "[[(''c'', JStr ''a''), (''v'', JStr ''100'')]]"
  let ?s0 = "\<lparr> auditHistory = [], lastAnalysisHash = None \<rparr>"
  let ?e1 = "\<lparr> iso_now = ''2026-01-01T10:00:00.000Z'', random36 = ''0.4fzyo82mvyr'' \<rparr>"
  let ?e2 = "\<lparr> iso_now = ''2026-01-01T10:01:00.000Z'', random36 = ''0.9k2m4x7qp1c'' \<rparr>"
  let ?run1 = "executeAnalysis ?ser (\<lambda>n. []) [] ?e1 ''c'' ''v'' ?rows ?s0"
  let ?run2 = "executeAnalysis ?ser (\<lambda>n. []) [] ?e2 ''c'' ''v'' ?rows (snd ?run1)"
  have some: "computeFullStats ?rows ''v'' \<noteq> None"
    by (simp add: computeFullStats_None_iff cell_def obj_get_def)
  obtain r1 where r1: "fst ?run1 = Inr r1" "isDelta r1 = True" "hash r1 = generateHash ?ser ?rows"
    using executeAnalysis_succeeds [OF some, of ?ser "\<lambda>n. []" "[]" ?e1 "''c''" ?s0] by auto
  have run1: "?run1 = (Inr r1, snd ?run1)"
    using r1(1) by (metis prod.collapse)
  have last: "lastAnalysisHash (snd ?run1) = Some (generateHash ?ser ?rows)"
    using executeAnalysis_Inr(2) [OF run1] r1(3) by simp
  obtain r2 where r2: "fst ?run2 = Inr r2" "isDelta r2 = False"
    using executeAnalysis_succeeds [OF some, of ?ser "\<lambda>n. []" "[]" ?e2 "''c''" "snd ?run1"] last
    by auto
  show ?thesis
    unfolding Let_def using r1(1,2) r2 by simp
qed

theorem repeated_audit_witness:
  \<open>(let ser = (\<lambda>d. ''[{"c":"a","v":"100"}]'');
        rows = [[(''c'', JStr ''a''), (''v'', JStr ''100'')]];
        run1 = executeAnalysis ser (\<lambda>n. []) []
                 \<lparr> iso_now = ''2026-01-01T10:00:00.000Z'', random36 = ''0.4fzyo82mvyr'' \<rparr>
                 ''c'' ''v'' rows \<lparr> auditHistory = [], lastAnalysisHash = None \<rparr>;
        run2 = executeAnalysis ser (\<lambda>n. []) []
                 \<lparr> iso_now = ''2026-01-01T10:01:00.000Z'', random36 = ''0.9k2m4x7qp1c'' \<rparr>
                 ''c'' ''v'' rows (snd run1)
    in map_sum id hash (fst run2) = map_sum id hash (fst run1)
     \<and> map_sum id mainStats (fst run2) = map_sum id mainStats (fst run1)
     \<and> map_sum id trackId (fst run2) = Inr ''TRK_9K2M4'')\<close>
proof -
  let ?ser = \<open>\<lambda>d :: row list. ''[{"c":"a","v":"100"}]''\<close>
  let ?rows = "[[(''c'', JStr ''a''), (''v'', JStr ''100'')]]"
  let ?s0 = "\<lparr> auditHistory = [], lastAnalysisHash = None \<rparr>"
  let ?e1 = "\<lparr> iso_now = ''2026-01-01T10:00:00.000Z'', random36 = ''0.4fzyo82mvyr'' \<rparr>"
  let ?e2 = "\<lparr> iso_now = ''2026-01-01T10:01:00.000Z'', random36 = ''0.9k2m4x7qp1c'' \<rparr>"
  let ?run1 = "executeAnalysis ?ser (\<lambda>n. []) [] ?e1 ''c'' ''v'' ?rows ?s0"
  let ?run2 = "executeAnalysis ?ser (\<lambda>n. []) [] ?e2 ''c'' ''v'' ?rows (snd ?run1)"
  have some: "computeFullStats ?rows ''v'' \<noteq> None"
    by (simp add: computeFullStats_None_iff cell_def obj_get_def)
  obtain r1 where r1: "fst ?run1 = Inr r1"
    using executeAnalysis_succeeds [OF some, of ?ser "\<lambda>n. []" "[]" ?e1 "''c''" ?s0] by auto
  have run1: "?run1 = (Inr r1, snd ?run1)"
    using r1 by (metis prod.collapse)
  obtain r2 s2 where r2: "?run2 = (Inr r2, s2)" "hash r2 = hash r1" "mainStats r2 = mainStats r1"
      "trackId r2 = ''TRK_'' @ toUpperCase (take 5 (drop 2 (random36 ?e2)))"
    using repeated_audit [OF run1, of "[]" ?e2] by blast
  have "toUpperCase (take 5 (drop 2 ''0.9k2m4x7qp1c'')) = ''9K2M4''"
    by (simp add: toUpperCase_def upper_char_def)
  then show ?thesis
    unfolding Let_def using r1 r2 by simp
qed

subsection \<open>Results of the engine and the completeness check\<close>

text \<open>
  A result that \<open>runAuditLogic\<close> returned has two narrative sections, a statistics model,
  a peaks record, three impact entries and a non-empty advisory list. For it the check of
  the code and the predicate of the specification agree: each holds exactly when the
  chart snapshot is there.
\<close>

lemma advisory_of_nonempty: "advisory_of st sh dc \<noteq> []"
  by (simp add: advisory_of_def Let_def)

lemma engine_result_complete:
  assumes "runAuditLogic ser ns env x y rows hist lh = Inr r"
  shows "validateReportCompleteness (stored r) snaps = text_truthy (reportChart snaps)"
    and "spec_complete (stored r) snaps = text_truthy (reportChart snaps)"
  using assms
  by (auto simp: runAuditLogic_def Let_def validateReportCompleteness_def spec_complete_def
      stored_def biAnalystBrain_def impactMatrix_of_def advisory_of_nonempty
      split: option.splits)

end
